theory Spec2Isabelle
  imports Main "HOL-Library.Word"
begin

section \<open>Storage API validation (pkg/apis/storage/validation/validation.go)\<close>

text \<open>
  A shallow embedding of the validators of the storage API group: StorageClass,
  VolumeAttachment, CSINode, CSIDriver and CSIStorageCapacity. Every Go function of
  the file is a HOL function of the same name. Pointers are options (\<open>None\<close> is
  \<open>nil\<close>), slices are lists (a nil slice and an empty one are the same list; the file
  only takes their length, ranges over them, or compares them semantically), string
  typed enumerations are strings, and a Go map that is ranged over is the list of its
  entries in the order the range statement visits them.
\<close>

subsection \<open>Field paths\<close>

text \<open>
  Modelled from the spec: the package \<open>k8s.io/apimachinery/pkg/util/validation/field\<close>
  is not part of the file. A Field Path is an ordered sequence of segments, each a
  field name or a collection index; \<open>NewPath\<close> makes a root path from one or more
  names, \<open>Child\<close> and \<open>Index\<close> extend a path without changing it.
\<close>

datatype PathElem = NameElem string | IndexElem nat

type_synonym Path = "PathElem list"

definition NewPath :: "string \<Rightarrow> string list \<Rightarrow> Path" where
  "NewPath name moreNames = NameElem name # map NameElem moreNames"

definition Child :: "Path \<Rightarrow> string \<Rightarrow> Path" where
  "Child p name = p @ [NameElem name]"

definition Index :: "Path \<Rightarrow> nat \<Rightarrow> Path" where
  "Index p i = p @ [IndexElem i]"

subsection \<open>Resource descriptors\<close>

text \<open>
  The descriptor types are declared in \<open>pkg/apis/storage\<close>, \<open>pkg/apis/core\<close> and
  apimachinery, outside the file. The records below keep the fields the validators
  read. \<open>ObjectMeta\<close>, \<open>PersistentVolumeSpec\<close>, \<open>LabelSelector\<close> and
  \<open>Quantity\<close> are never looked into by this file: it only hands them to external
  validators and compares them, so they are kept as small stand-ins.
\<close>

datatype ObjectMeta = ObjectMeta (metaName: string) (metaNamespace: string)

datatype PersistentVolumeSpec = PersistentVolumeSpec (pvStorageClassName: string)

datatype LabelSelector = LabelSelector (MatchLabels: "(string \<times> string) list")

datatype Quantity = Quantity int

text \<open>
  A \<open>map[string]string\<close>: \<open>None\<close> is the nil map, \<open>Some entries\<close> a map with
  these entries (keys pairwise distinct), listed in range order.
\<close>

type_synonym StringMap = "(string \<times> string) list option"

definition entries :: "StringMap \<Rightarrow> (string \<times> string) list" where
  "entries m = (case m of None \<Rightarrow> [] | Some es \<Rightarrow> es)"

record TopologySelectorLabelRequirement =
  Key :: string
  Values :: "string list"

record TopologySelectorTerm =
  MatchLabelExpressions :: "TopologySelectorLabelRequirement list"

text \<open>
  The raw form of a topology term, \<open>map[string]sets.String\<close>. The file only builds a
  list of such maps and compares them with \<open>helper.Semantic.DeepEqual\<close>, under which a nil
  map and an empty map are equal; both are \<open>Map.empty\<close> here.
\<close>

type_synonym RawTopology = "string \<rightharpoonup> string set"

record StorageClass =
  StorageClass_ObjectMeta :: ObjectMeta
  Provisioner :: string
  Parameters :: StringMap
  ReclaimPolicy :: "string option"
  VolumeBindingMode :: "string option"
  AllowedTopologies :: "TopologySelectorTerm list"

record VolumeAttachmentSource =
  PersistentVolumeName :: "string option"
  InlineVolumeSpec :: "PersistentVolumeSpec option"

record VolumeAttachmentSpec =
  Attacher :: string
  Source :: VolumeAttachmentSource
  NodeName :: string

record VolumeError =
  Message :: string

record VolumeAttachmentStatus =
  AttachmentMetadata :: StringMap
  AttachError :: "VolumeError option"
  DetachError :: "VolumeError option"

record VolumeAttachment =
  VolumeAttachment_ObjectMeta :: ObjectMeta
  VolumeAttachment_Spec :: VolumeAttachmentSpec
  VolumeAttachment_Status :: VolumeAttachmentStatus

record VolumeNodeResources =
  Count :: "int option"

record CSINodeDriver =
  Name :: string
  NodeID :: string
  TopologyKeys :: "string list"
  Allocatable :: "VolumeNodeResources option"

record CSINodeSpec =
  Drivers :: "CSINodeDriver list"

record CSINode =
  CSINode_ObjectMeta :: ObjectMeta
  CSINode_Spec :: CSINodeSpec

record CSINodeValidationOptions =
  AllowLongNodeID :: bool

record TokenRequest =
  Audience :: string
  ExpirationSeconds :: "int option"

record CSIDriverSpec =
  AttachRequired :: "bool option"
  PodInfoOnMount :: "bool option"
  VolumeLifecycleModes :: "string list"
  StorageCapacity :: "bool option"
  FSGroupPolicy :: "string option"
  TokenRequests :: "TokenRequest list"

record CSIDriver =
  CSIDriver_ObjectMeta :: ObjectMeta
  CSIDriver_Spec :: CSIDriverSpec

record CSIStorageCapacity =
  CSIStorageCapacity_ObjectMeta :: ObjectMeta
  NodeTopology :: "LabelSelector option"
  StorageClassName :: string
  Capacity :: "Quantity option"

subsection \<open>Validation errors\<close>

text \<open>
  Modelled from the spec: the bad value an error carries is the Go value handed to the
  constructor as \<open>interface{}\<close>; one arm per type the file hands over.
\<close>

datatype BadValue =
    BVString string
  | BVInt64 int
  | BVStringPtr "string option"
  | BVBoolPtr "bool option"
  | BVStringSlice "string list"
  | BVStringMap StringMap
  | BVVolumeAttachmentSpec VolumeAttachmentSpec
  | BVCSINodeDriver CSINodeDriver
  | BVLabelSelectorPtr "LabelSelector option"

datatype ErrorType =
    ErrorTypeRequired
  | ErrorTypeInvalid
  | ErrorTypeNotSupported
  | ErrorTypeForbidden
  | ErrorTypeDuplicate
  | ErrorTypeTooLong
  | ErrorTypeInternal

text \<open>
  Modelled from the spec: one constructor per Kind with its payload. \<open>Required\<close> and
  \<open>Forbidden\<close> take the path and a detail text, \<open>Invalid\<close> the bad value and a detail,
  \<open>NotSupported\<close> the bad value and the supported values, \<open>Duplicate\<close> the bad value,
  \<open>TooLong\<close> the bad value and the limit it carries.
\<close>

datatype Error =
    Required Path string
  | Invalid Path BadValue string
  | NotSupported Path BadValue "string list"
  | Forbidden Path string
  | Duplicate Path BadValue
  | TooLong Path BadValue int
  | InternalError Path string

type_synonym ErrorList = "Error list"

fun Field :: "Error \<Rightarrow> Path" where
  "Field (Required p d) = p"
| "Field (Invalid p v d) = p"
| "Field (NotSupported p v vs) = p"
| "Field (Forbidden p d) = p"
| "Field (Duplicate p v) = p"
| "Field (TooLong p v n) = p"
| "Field (InternalError p d) = p"

fun Type :: "Error \<Rightarrow> ErrorType" where
  "Type (Required p d) = ErrorTypeRequired"
| "Type (Invalid p v d) = ErrorTypeInvalid"
| "Type (NotSupported p v vs) = ErrorTypeNotSupported"
| "Type (Forbidden p d) = ErrorTypeForbidden"
| "Type (Duplicate p v) = ErrorTypeDuplicate"
| "Type (TooLong p v n) = ErrorTypeTooLong"
| "Type (InternalError p d) = ErrorTypeInternal"

text \<open>A nil pointer dereference is the one run-time panic the file can raise.\<close>

datatype Panic = NilPointerDereference

subsection \<open>External collaborators\<close>

datatype Feature = CSIMigration | CSIStorageCapacity

text \<open>
  The functions the file calls in other packages, named after the package and the
  function. They are parameters of the model: every validator below takes the record
  as its first argument. \<open>Enabled\<close> is \<open>utilfeature.DefaultFeatureGate.Enabled\<close>.
\<close>

record Ext =
  apivalidation_ValidateObjectMeta ::
    "ObjectMeta \<Rightarrow> bool \<Rightarrow> (string \<Rightarrow> bool \<Rightarrow> string list) \<Rightarrow> Path \<Rightarrow> ErrorList"
  apivalidation_ValidateObjectMetaUpdate :: "ObjectMeta \<Rightarrow> ObjectMeta \<Rightarrow> Path \<Rightarrow> ErrorList"
  apivalidation_ValidateClassName :: "string \<Rightarrow> bool \<Rightarrow> string list"
  apivalidation_ValidateNodeName :: "string \<Rightarrow> bool \<Rightarrow> string list"
  apivalidation_ValidatePersistentVolumeName :: "string \<Rightarrow> bool \<Rightarrow> string list"
  apimachineryvalidation_NameIsDNSSubdomain :: "string \<Rightarrow> bool \<Rightarrow> string list"
  apivalidation_ValidateQualifiedName :: "string \<Rightarrow> Path \<Rightarrow> ErrorList"
  apivalidation_ValidateCSIDriverName :: "string \<Rightarrow> Path \<Rightarrow> ErrorList"
  apivalidation_ValidatePersistentVolumeSpec ::
    "PersistentVolumeSpec \<Rightarrow> string \<Rightarrow> bool \<Rightarrow> Path \<Rightarrow> ErrorList"
  apivalidation_ValidateTopologySelectorTerm ::
    "TopologySelectorTerm \<Rightarrow> Path \<Rightarrow> RawTopology \<times> ErrorList"
  apivalidation_ValidateNonnegativeField :: "int \<Rightarrow> Path \<Rightarrow> ErrorList"
  apivalidation_ValidateNonnegativeQuantity :: "Quantity \<Rightarrow> Path \<Rightarrow> ErrorList"
  metav1validation_ValidateLabelSelector :: "LabelSelector option \<Rightarrow> Path \<Rightarrow> ErrorList"
  strings_ToLower :: "string \<Rightarrow> string"
  Enabled :: "Feature \<Rightarrow> bool"

text \<open>
  Modelled from the spec: \<open>apiequality.Semantic.DeepEqual\<close> and
  \<open>helper.Semantic.DeepEqual\<close> are deep structural (value) equality, independent of
  reference identity. On the types above (pointers as options, nil and empty slices
  and raw topology maps identified) that is equality of values.
\<close>

definition Semantic_DeepEqual :: "'a \<Rightarrow> 'a \<Rightarrow> bool" where
  "Semantic_DeepEqual a b = (a = b)"

text \<open>
  Modelled from the spec: \<open>reflect.DeepEqual\<close> of the Go standard library on two
  \<open>map[string]string\<close>: a nil map equals only a nil map, and two non-nil maps are
  equal when they hold the same entries, whatever the order they are visited in.
\<close>

fun reflect_DeepEqual :: "StringMap \<Rightarrow> StringMap \<Rightarrow> bool" where
  "reflect_DeepEqual None None = True"
| "reflect_DeepEqual (Some a) (Some b) = (set a = set b)"
| "reflect_DeepEqual None (Some b) = False"
| "reflect_DeepEqual (Some a) None = False"

text \<open>
  Modelled from the spec: \<open>ValidateImmutableField\<close> of apimachinery, the Immutability
  Differ on one field: any difference under deep structural equality yields Invalid
  tagged "field is immutable". The first argument is the conversion of the field's
  value to \<open>interface{}\<close>.
\<close>

definition ValidateImmutableField :: "('a \<Rightarrow> BadValue) \<Rightarrow> 'a \<Rightarrow> 'a \<Rightarrow> Path \<Rightarrow> ErrorList" where
  "ValidateImmutableField box newVal oldVal fldPath =
     (if \<not> Semantic_DeepEqual oldVal newVal
      then [Invalid fldPath (box newVal) ''field is immutable'']
      else [])"

subsection \<open>Constants\<close>

definition maxProvisionerParameterSize :: int where
  "maxProvisionerParameterSize = 256 * 2 ^ 10"

definition maxProvisionerParameterLen :: nat where
  "maxProvisionerParameterLen = 512"

definition maxAttachedVolumeMetadataSize :: int where
  "maxAttachedVolumeMetadataSize = 256 * 2 ^ 10"

definition maxVolumeErrorMessageSize :: nat where
  "maxVolumeErrorMessageSize = 1024"

definition csiNodeIDMaxLength :: nat where
  "csiNodeIDMaxLength = 192"

definition csiNodeIDLongerMaxLength :: nat where
  "csiNodeIDLongerMaxLength = 256"

text \<open>
  Modelled from the spec: the enumeration constants are declared with the descriptor
  types, outside the file. A \<open>sets.String\<close> built once from constants is the list of
  its members in sorted order, which is what its \<open>List()\<close> returns; \<open>Has\<close> is
  membership.
\<close>

definition supportedReclaimPolicy :: "string list" where
  "supportedReclaimPolicy = [''Delete'', ''Retain'']"

definition supportedVolumeBindingModes :: "string list" where
  "supportedVolumeBindingModes = [''Immediate'', ''WaitForFirstConsumer'']"

definition supportedFSGroupPolicy :: "string list" where
  "supportedFSGroupPolicy = [''File'', ''None'', ''ReadWriteOnceWithFSType'']"

definition VolumeLifecyclePersistent :: string where
  "VolumeLifecyclePersistent = ''Persistent''"

definition VolumeLifecycleEphemeral :: string where
  "VolumeLifecycleEphemeral = ''Ephemeral''"

subsection \<open>StorageClass\<close>

definition validateProvisioner :: "Ext \<Rightarrow> string \<Rightarrow> Path \<Rightarrow> ErrorList" where
  "validateProvisioner E provisioner fldPath =
     (let allErrs = [];
          allErrs = (if length provisioner = 0
                     then allErrs @ [Required fldPath provisioner] else allErrs);
          allErrs = (if length provisioner > 0
                     then allErrs @ apivalidation_ValidateQualifiedName E
                                      (strings_ToLower E provisioner) fldPath
                     else allErrs)
      in allErrs)"

text \<open>
  The range loop of \<open>validateParameters\<close>: the state is the error list and
  \<open>totalSize\<close>, an \<open>int64\<close> whose additions wrap.
\<close>

fun validateParameters_loop ::
  "(string \<times> string) list \<Rightarrow> Path \<Rightarrow> ErrorList \<times> 64 word \<Rightarrow> ErrorList \<times> 64 word" where
  "validateParameters_loop [] fldPath (allErrs, totalSize) = (allErrs, totalSize)"
| "validateParameters_loop ((k, v) # params) fldPath (allErrs, totalSize) =
     validateParameters_loop params fldPath
       ((if length k < 1
         then allErrs @ [Invalid fldPath (BVString k) ''field can not be empty.'']
         else allErrs),
        totalSize + (of_nat (length k) + of_nat (length v)))"

definition validateParameters :: "StringMap \<Rightarrow> Path \<Rightarrow> ErrorList" where
  "validateParameters params fldPath =
     (if length (entries params) > maxProvisionerParameterLen
      then [TooLong fldPath (BVString ''Provisioner Parameters exceeded max allowed'')
              (int maxProvisionerParameterLen)]
      else
        (let (allErrs, totalSize) = validateParameters_loop (entries params) fldPath ([], 0)
         in if sint totalSize > maxProvisionerParameterSize
            then allErrs @ [TooLong fldPath (BVString []) maxProvisionerParameterSize]
            else allErrs))"

text \<open>\<open>*reclaimPolicy\<close> is read with no nil check: on a nil pointer the call panics.\<close>

definition validateReclaimPolicy :: "string option \<Rightarrow> Path \<Rightarrow> Panic + ErrorList" where
  "validateReclaimPolicy reclaimPolicy fldPath =
     (case reclaimPolicy of
        None \<Rightarrow> Inl NilPointerDereference
      | Some policy \<Rightarrow>
          Inr (if length policy > 0
               then (if \<not> (policy \<in> set supportedReclaimPolicy)
                     then [NotSupported fldPath (BVStringPtr reclaimPolicy) supportedReclaimPolicy]
                     else [])
               else []))"

definition validateVolumeBindingMode :: "string option \<Rightarrow> Path \<Rightarrow> ErrorList" where
  "validateVolumeBindingMode mode fldPath =
     (case mode of
        None \<Rightarrow> [Required fldPath []]
      | Some m \<Rightarrow>
          (if \<not> (m \<in> set supportedVolumeBindingModes)
           then [NotSupported fldPath (BVStringPtr mode) supportedVolumeBindingModes]
           else []))"

text \<open>The inner loop of \<open>validateAllowedTopologies\<close>, over \<open>rawTopologies\<close>.\<close>

fun validateAllowedTopologies_inner ::
  "RawTopology \<Rightarrow> Path \<Rightarrow> RawTopology list \<Rightarrow> ErrorList \<Rightarrow> ErrorList" where
  "validateAllowedTopologies_inner exprMap idxPath [] allErrs = allErrs"
| "validateAllowedTopologies_inner exprMap idxPath (t # ts) allErrs =
     validateAllowedTopologies_inner exprMap idxPath ts
       (if Semantic_DeepEqual exprMap t
        then allErrs @ [Duplicate (Child idxPath ''matchLabelExpressions'') (BVString [])]
        else allErrs)"

text \<open>The outer loop, from index \<open>i\<close> on; the state is \<open>rawTopologies\<close> and the errors.\<close>

fun validateAllowedTopologies_loop ::
  "Ext \<Rightarrow> Path \<Rightarrow> nat \<Rightarrow> TopologySelectorTerm list \<Rightarrow> RawTopology list \<times> ErrorList
     \<Rightarrow> RawTopology list \<times> ErrorList" where
  "validateAllowedTopologies_loop E fldPath i [] (rawTopologies, allErrs) =
     (rawTopologies, allErrs)"
| "validateAllowedTopologies_loop E fldPath i (term # terms) (rawTopologies, allErrs) =
     (let idxPath = Index fldPath i;
          (exprMap, termErrs) = apivalidation_ValidateTopologySelectorTerm E term (Index fldPath i);
          allErrs = allErrs @ termErrs;
          allErrs = validateAllowedTopologies_inner exprMap idxPath rawTopologies allErrs;
          rawTopologies = rawTopologies @ [exprMap]
      in validateAllowedTopologies_loop E fldPath (Suc i) terms (rawTopologies, allErrs))"

text \<open>
  \<open>make([]map[string]sets.String, len(topologies))\<close> is a slice of \<open>len(topologies)\<close>
  nil maps, to which the loop appends.
\<close>

definition validateAllowedTopologies :: "Ext \<Rightarrow> TopologySelectorTerm list \<Rightarrow> Path \<Rightarrow> ErrorList" where
  "validateAllowedTopologies E topologies fldPath =
     (if length topologies = 0 then []
      else snd (validateAllowedTopologies_loop E fldPath 0 topologies
                  (replicate (length topologies) Map.empty, [])))"

definition ValidateStorageClass :: "Ext \<Rightarrow> StorageClass \<Rightarrow> Panic + ErrorList" where
  "ValidateStorageClass E storageClass =
     (let allErrs = apivalidation_ValidateObjectMeta E (StorageClass_ObjectMeta storageClass) False
                      (apivalidation_ValidateClassName E) (NewPath ''metadata'' []);
          allErrs = allErrs @ validateProvisioner E (Provisioner storageClass) (NewPath ''provisioner'' []);
          allErrs = allErrs @ validateParameters (Parameters storageClass) (NewPath ''parameters'' [])
      in case validateReclaimPolicy (ReclaimPolicy storageClass) (NewPath ''reclaimPolicy'' []) of
           Inl panic \<Rightarrow> Inl panic
         | Inr reclaimErrs \<Rightarrow>
             (let allErrs = allErrs @ reclaimErrs;
                  allErrs = allErrs @ validateVolumeBindingMode (VolumeBindingMode storageClass)
                                        (NewPath ''volumeBindingMode'' []);
                  allErrs = allErrs @ validateAllowedTopologies E (AllowedTopologies storageClass)
                                        (NewPath ''allowedTopologies'' [])
              in Inr allErrs))"

text \<open>
  \<open>*storageClass.ReclaimPolicy != *oldStorageClass.ReclaimPolicy\<close> dereferences both
  pointers: the call panics when either is nil.
\<close>

definition ValidateStorageClassUpdate :: "Ext \<Rightarrow> StorageClass \<Rightarrow> StorageClass \<Rightarrow> Panic + ErrorList" where
  "ValidateStorageClassUpdate E storageClass oldStorageClass =
     (let allErrs = apivalidation_ValidateObjectMetaUpdate E (StorageClass_ObjectMeta storageClass)
                      (StorageClass_ObjectMeta oldStorageClass) (NewPath ''metadata'' []);
          allErrs = (if \<not> reflect_DeepEqual (Parameters oldStorageClass) (Parameters storageClass)
                     then allErrs @ [Forbidden (NewPath ''parameters'' [])
                                       ''updates to parameters are forbidden.'']
                     else allErrs);
          allErrs = (if Provisioner storageClass \<noteq> Provisioner oldStorageClass
                     then allErrs @ [Forbidden (NewPath ''provisioner'' [])
                                       ''updates to provisioner are forbidden.'']
                     else allErrs)
      in case (ReclaimPolicy storageClass, ReclaimPolicy oldStorageClass) of
           (Some newPolicy, Some oldPolicy) \<Rightarrow>
             (let allErrs = (if newPolicy \<noteq> oldPolicy
                             then allErrs @ [Forbidden (NewPath ''reclaimPolicy'' [])
                                               ''updates to reclaimPolicy are forbidden.'']
                             else allErrs);
                  allErrs = allErrs @ ValidateImmutableField BVStringPtr
                                        (VolumeBindingMode storageClass)
                                        (VolumeBindingMode oldStorageClass)
                                        (NewPath ''volumeBindingMode'' [])
              in Inr allErrs)
         | _ \<Rightarrow> Inl NilPointerDereference)"

subsection \<open>VolumeAttachment\<close>

definition validateAttacher :: "string \<Rightarrow> Path \<Rightarrow> ErrorList" where
  "validateAttacher attacher fldPath =
     (if length attacher = 0 then [Required fldPath attacher] else [])"

definition validateVolumeAttachmentSource :: "Ext \<Rightarrow> VolumeAttachmentSource \<Rightarrow> Path \<Rightarrow> ErrorList" where
  "validateVolumeAttachmentSource E source fldPath =
     (if InlineVolumeSpec source = None \<and> PersistentVolumeName source = None then
        (if Enabled E CSIMigration
         then [Required fldPath ''must specify exactly one of inlineVolumeSpec and persistentVolumeName'']
         else [Required fldPath ''must specify persistentVolumeName when CSIMigration feature is disabled''])
      else if InlineVolumeSpec source \<noteq> None \<and> PersistentVolumeName source \<noteq> None then
        [Forbidden fldPath ''must specify exactly one of inlineVolumeSpec and persistentVolumeName'']
      else
        (case PersistentVolumeName source of
           Some pvName \<Rightarrow>
             (if length pvName = 0
              then [Required (Child fldPath ''persistentVolumeName'')
                      ''must specify non empty persistentVolumeName'']
              else [])
         | None \<Rightarrow>
             (case InlineVolumeSpec source of
                Some spec \<Rightarrow>
                  apivalidation_ValidatePersistentVolumeSpec E spec [] True
                    (Child fldPath ''inlineVolumeSpec'')
              | None \<Rightarrow> [])))"

definition validateNodeName :: "Ext \<Rightarrow> string \<Rightarrow> Path \<Rightarrow> ErrorList" where
  "validateNodeName E nodeName fldPath =
     map (\<lambda>msg. Invalid fldPath (BVString nodeName) msg)
       (apivalidation_ValidateNodeName E nodeName False)"

definition validateVolumeAttachmentSpec :: "Ext \<Rightarrow> VolumeAttachmentSpec \<Rightarrow> Path \<Rightarrow> ErrorList" where
  "validateVolumeAttachmentSpec E spec fldPath =
     (let allErrs = [];
          allErrs = allErrs @ validateAttacher (Attacher spec) (Child fldPath ''attacher'');
          allErrs = allErrs @ validateVolumeAttachmentSource E (Source spec) (Child fldPath ''source'');
          allErrs = allErrs @ validateNodeName E (NodeName spec) (Child fldPath ''nodeName'')
      in allErrs)"

fun validateAttachmentMetadata_loop :: "(string \<times> string) list \<Rightarrow> 64 word \<Rightarrow> 64 word" where
  "validateAttachmentMetadata_loop [] size' = size'"
| "validateAttachmentMetadata_loop ((k, v) # metadata) size' =
     validateAttachmentMetadata_loop metadata (size' + (of_nat (length k) + of_nat (length v)))"

definition validateAttachmentMetadata :: "StringMap \<Rightarrow> Path \<Rightarrow> ErrorList" where
  "validateAttachmentMetadata metadata fldPath =
     (let size' = validateAttachmentMetadata_loop (entries metadata) 0
      in if sint size' > maxAttachedVolumeMetadataSize
         then [TooLong fldPath (BVStringMap metadata) maxAttachedVolumeMetadataSize]
         else [])"

definition validateVolumeError :: "VolumeError option \<Rightarrow> Path \<Rightarrow> ErrorList" where
  "validateVolumeError e fldPath =
     (case e of
        None \<Rightarrow> []
      | Some err \<Rightarrow>
          (if length (Message err) > maxVolumeErrorMessageSize
           then [TooLong (Child fldPath ''message'') (BVString (Message err))
                   maxAttachedVolumeMetadataSize]
           else []))"

definition validateVolumeAttachmentStatus :: "VolumeAttachmentStatus \<Rightarrow> Path \<Rightarrow> ErrorList" where
  "validateVolumeAttachmentStatus status fldPath =
     (let allErrs = [];
          allErrs = allErrs @ validateAttachmentMetadata (AttachmentMetadata status)
                                (Child fldPath ''attachmentMetadata'');
          allErrs = allErrs @ validateVolumeError (AttachError status) (Child fldPath ''attachError'');
          allErrs = allErrs @ validateVolumeError (DetachError status) (Child fldPath ''detachError'')
      in allErrs)"

definition ValidateVolumeAttachment :: "Ext \<Rightarrow> VolumeAttachment \<Rightarrow> ErrorList" where
  "ValidateVolumeAttachment E volumeAttachment =
     (let allErrs = apivalidation_ValidateObjectMeta E (VolumeAttachment_ObjectMeta volumeAttachment)
                      False (apivalidation_ValidateClassName E) (NewPath ''metadata'' []);
          allErrs = allErrs @ validateVolumeAttachmentSpec E (VolumeAttachment_Spec volumeAttachment)
                                (NewPath ''spec'' []);
          allErrs = allErrs @ validateVolumeAttachmentStatus (VolumeAttachment_Status volumeAttachment)
                                (NewPath ''status'' [])
      in allErrs)"

definition ValidateVolumeAttachmentV1 :: "Ext \<Rightarrow> VolumeAttachment \<Rightarrow> ErrorList" where
  "ValidateVolumeAttachmentV1 E volumeAttachment =
     (let allErrs = apivalidation_ValidateCSIDriverName E
                      (Attacher (VolumeAttachment_Spec volumeAttachment))
                      (NewPath ''spec.attacher'' [])
      in case PersistentVolumeName (Source (VolumeAttachment_Spec volumeAttachment)) of
           Some pvName \<Rightarrow>
             allErrs @ map (\<lambda>msg. Invalid (NewPath ''spec.source.persistentVolumeName'' [])
                                    (BVString pvName) msg)
                         (apivalidation_ValidatePersistentVolumeName E pvName False)
         | None \<Rightarrow> allErrs)"

definition ValidateVolumeAttachmentUpdate :: "Ext \<Rightarrow> VolumeAttachment \<Rightarrow> VolumeAttachment \<Rightarrow> ErrorList" where
  "ValidateVolumeAttachmentUpdate E new old =
     (let allErrs = ValidateVolumeAttachment E new
      in if \<not> Semantic_DeepEqual (VolumeAttachment_Spec old) (VolumeAttachment_Spec new)
         then allErrs @ [Invalid (NewPath ''spec'' [])
                           (BVVolumeAttachmentSpec (VolumeAttachment_Spec new)) ''field is immutable'']
         else allErrs)"

subsection \<open>CSINode\<close>

definition validateCSINodeDriverNodeID ::
  "string \<Rightarrow> Path \<Rightarrow> CSINodeValidationOptions \<Rightarrow> ErrorList" where
  "validateCSINodeDriverNodeID nodeID fldPath validationOpts =
     (let allErrs = [];
          allErrs = (if length nodeID = 0 then allErrs @ [Required fldPath nodeID] else allErrs);
          maxLength = csiNodeIDMaxLength;
          maxLength = (if AllowLongNodeID validationOpts then csiNodeIDLongerMaxLength else maxLength);
          allErrs = (if length nodeID > maxLength
                     then allErrs @ [Invalid fldPath (BVString nodeID)
                                       (if maxLength = 256 then ''must be 256 characters or less''
                                        else ''must be 192 characters or less'')]
                     else allErrs)
      in allErrs)"

definition CSINodeLongerID :: "string \<Rightarrow> bool" where
  "CSINodeLongerID nodeID = (length nodeID > csiNodeIDMaxLength)"

definition validateCSINodeDriverAllocatable ::
  "Ext \<Rightarrow> VolumeNodeResources option \<Rightarrow> Path \<Rightarrow> ErrorList" where
  "validateCSINodeDriverAllocatable E a fldPath =
     (case a of
        None \<Rightarrow> []
      | Some res \<Rightarrow>
          (case Count res of
             None \<Rightarrow> []
           | Some c \<Rightarrow> apivalidation_ValidateNonnegativeField E c (Child fldPath ''count'')))"

text \<open>
  The loop of \<open>validateCSINodeDriver\<close> over the topology keys: the state is the set
  \<open>topoKeys\<close> and the errors.
\<close>

fun validateCSINodeDriver_keys ::
  "Ext \<Rightarrow> Path \<Rightarrow> string list \<Rightarrow> string set \<times> ErrorList \<Rightarrow> string set \<times> ErrorList" where
  "validateCSINodeDriver_keys E fldPath [] (topoKeys, allErrs) = (topoKeys, allErrs)"
| "validateCSINodeDriver_keys E fldPath (key # keys) (topoKeys, allErrs) =
     (let allErrs = (if length key = 0 then allErrs @ [Required fldPath key] else allErrs);
          allErrs = (if key \<in> topoKeys then allErrs @ [Duplicate fldPath (BVString key)] else allErrs);
          topoKeys = insert key topoKeys;
          allErrs = allErrs @ apivalidation_ValidateQualifiedName E key fldPath
      in validateCSINodeDriver_keys E fldPath keys (topoKeys, allErrs))"

text \<open>
  \<open>validateCSINodeDriver\<close> inserts into the set \<open>driverNamesInSpecs\<close> of its caller:
  the model returns the errors and the updated set.
\<close>

definition validateCSINodeDriver ::
  "Ext \<Rightarrow> CSINodeDriver \<Rightarrow> string set \<Rightarrow> Path \<Rightarrow> CSINodeValidationOptions
     \<Rightarrow> ErrorList \<times> string set" where
  "validateCSINodeDriver E driver driverNamesInSpecs fldPath validationOpts =
     (let allErrs = [];
          allErrs = allErrs @ apivalidation_ValidateCSIDriverName E (Name driver) (Child fldPath ''name'');
          allErrs = allErrs @ validateCSINodeDriverNodeID (NodeID driver) (Child fldPath ''nodeID'')
                                validationOpts;
          allErrs = allErrs @ validateCSINodeDriverAllocatable E (Allocatable driver)
                                (Child fldPath ''allocatable'');
          allErrs = (if Name driver \<in> driverNamesInSpecs
                     then allErrs @ [Duplicate (Child fldPath ''name'') (BVString (Name driver))]
                     else allErrs);
          driverNamesInSpecs = insert (Name driver) driverNamesInSpecs;
          (topoKeys, allErrs) = validateCSINodeDriver_keys E fldPath (TopologyKeys driver) ({}, allErrs)
      in (allErrs, driverNamesInSpecs))"

fun validateCSINodeDrivers_loop ::
  "Ext \<Rightarrow> Path \<Rightarrow> CSINodeValidationOptions \<Rightarrow> nat \<Rightarrow> CSINodeDriver list
     \<Rightarrow> ErrorList \<times> string set \<Rightarrow> ErrorList \<times> string set" where
  "validateCSINodeDrivers_loop E fldPath validationOpts i [] (allErrs, driverNamesInSpecs) =
     (allErrs, driverNamesInSpecs)"
| "validateCSINodeDrivers_loop E fldPath validationOpts i (driver # drivers)
     (allErrs, driverNamesInSpecs) =
     (let idxPath = Index fldPath i;
          (driverErrs, driverNamesInSpecs) =
             validateCSINodeDriver E driver driverNamesInSpecs idxPath validationOpts;
          allErrs = allErrs @ driverErrs
      in validateCSINodeDrivers_loop E fldPath validationOpts (Suc i) drivers
           (allErrs, driverNamesInSpecs))"

definition validateCSINodeDrivers ::
  "Ext \<Rightarrow> CSINodeDriver list \<Rightarrow> Path \<Rightarrow> CSINodeValidationOptions \<Rightarrow> ErrorList" where
  "validateCSINodeDrivers E drivers fldPath validationOpts =
     fst (validateCSINodeDrivers_loop E fldPath validationOpts 0 drivers ([], {}))"

definition validateCSINodeSpec ::
  "Ext \<Rightarrow> CSINodeSpec \<Rightarrow> Path \<Rightarrow> CSINodeValidationOptions \<Rightarrow> ErrorList" where
  "validateCSINodeSpec E spec fldPath validationOpts =
     (let allErrs = [];
          allErrs = allErrs @ validateCSINodeDrivers E (Drivers spec) (Child fldPath ''drivers'')
                                validationOpts
      in allErrs)"

definition ValidateCSINode :: "Ext \<Rightarrow> CSINode \<Rightarrow> CSINodeValidationOptions \<Rightarrow> ErrorList" where
  "ValidateCSINode E csiNode validationOpts =
     (let allErrs = apivalidation_ValidateObjectMeta E (CSINode_ObjectMeta csiNode) False
                      (apivalidation_ValidateNodeName E) (NewPath ''metadata'' []);
          allErrs = allErrs @ validateCSINodeSpec E (CSINode_Spec csiNode) (NewPath ''spec'' [])
                                validationOpts
      in allErrs)"

text \<open>The two nested loops of \<open>ValidateCSINodeUpdate\<close>, the inner one over the new drivers.\<close>

fun ValidateCSINodeUpdate_inner :: "CSINodeDriver \<Rightarrow> CSINodeDriver list \<Rightarrow> ErrorList \<Rightarrow> ErrorList" where
  "ValidateCSINodeUpdate_inner oldDriver [] allErrs = allErrs"
| "ValidateCSINodeUpdate_inner oldDriver (newDriver # newDrivers) allErrs =
     ValidateCSINodeUpdate_inner oldDriver newDrivers
       (if Name oldDriver = Name newDriver
        then (if \<not> Semantic_DeepEqual oldDriver newDriver
              then allErrs @ [Invalid (NewPath ''CSINodeDriver'' []) (BVCSINodeDriver newDriver)
                                ''field is immutable'']
              else allErrs)
        else allErrs)"

fun ValidateCSINodeUpdate_outer :: "CSINodeDriver list \<Rightarrow> CSINodeDriver list \<Rightarrow> ErrorList \<Rightarrow> ErrorList" where
  "ValidateCSINodeUpdate_outer [] newDrivers allErrs = allErrs"
| "ValidateCSINodeUpdate_outer (oldDriver # oldDrivers) newDrivers allErrs =
     ValidateCSINodeUpdate_outer oldDrivers newDrivers
       (ValidateCSINodeUpdate_inner oldDriver newDrivers allErrs)"

definition ValidateCSINodeUpdate ::
  "Ext \<Rightarrow> CSINode \<Rightarrow> CSINode \<Rightarrow> CSINodeValidationOptions \<Rightarrow> ErrorList" where
  "ValidateCSINodeUpdate E new old validationOpts =
     (let allErrs = ValidateCSINode E new validationOpts
      in ValidateCSINodeUpdate_outer (Drivers (CSINode_Spec old)) (Drivers (CSINode_Spec new)) allErrs)"

subsection \<open>CSIDriver\<close>

text \<open>\<open>var ValidateCSIDriverName = apimachineryvalidation.NameIsDNSSubdomain\<close>\<close>

definition ValidateCSIDriverName :: "Ext \<Rightarrow> string \<Rightarrow> bool \<Rightarrow> string list" where
  "ValidateCSIDriverName E = apimachineryvalidation_NameIsDNSSubdomain E"

definition validateAttachRequired :: "bool option \<Rightarrow> Path \<Rightarrow> ErrorList" where
  "validateAttachRequired attachRequired fldPath =
     (if attachRequired = None then [Required fldPath []] else [])"

definition validatePodInfoOnMount :: "bool option \<Rightarrow> Path \<Rightarrow> ErrorList" where
  "validatePodInfoOnMount podInfoOnMount fldPath =
     (if podInfoOnMount = None then [Required fldPath []] else [])"

definition validateStorageCapacity :: "Ext \<Rightarrow> bool option \<Rightarrow> Path \<Rightarrow> ErrorList" where
  "validateStorageCapacity E storageCapacity fldPath =
     (if storageCapacity = None \<and> Enabled E CSIStorageCapacity then [Required fldPath []] else [])"

definition validateFSGroupPolicy :: "string option \<Rightarrow> Path \<Rightarrow> ErrorList" where
  "validateFSGroupPolicy fsGroupPolicy fldPath =
     (case fsGroupPolicy of
        None \<Rightarrow> []
      | Some policy \<Rightarrow>
          (if \<not> (policy \<in> set supportedFSGroupPolicy)
           then [NotSupported fldPath (BVStringPtr fsGroupPolicy) supportedFSGroupPolicy]
           else []))"

text \<open>
  The loop of \<open>validateTokenRequests\<close> from index \<open>i\<close> on. The state is the map
  \<open>audiences\<close> and the errors; each \<open>continue\<close> is a branch that goes on with the
  rest of the list. \<open>int64(min.Seconds())\<close> is 600 and \<open>1<<32\<close> is \<open>2 ^ 32\<close>.
\<close>

fun validateTokenRequests_loop ::
  "Path \<Rightarrow> nat \<Rightarrow> TokenRequest list \<Rightarrow> (string \<rightharpoonup> bool) \<times> ErrorList
     \<Rightarrow> (string \<rightharpoonup> bool) \<times> ErrorList" where
  "validateTokenRequests_loop fldPath i [] (audiences, allErrs) = (audiences, allErrs)"
| "validateTokenRequests_loop fldPath i (tokenRequest # tokenRequests) (audiences, allErrs) =
     (let path = Index fldPath i;
          audience = Audience tokenRequest
      in if audiences audience \<noteq> None then
           validateTokenRequests_loop fldPath (Suc i) tokenRequests
             (audiences, allErrs @ [Duplicate (Child path ''audience'') (BVString audience)])
         else
           (let audiences = audiences(audience \<mapsto> True)
            in case ExpirationSeconds tokenRequest of
                 None \<Rightarrow> validateTokenRequests_loop fldPath (Suc i) tokenRequests (audiences, allErrs)
               | Some seconds \<Rightarrow>
                   (let allErrs = (if seconds < 600
                                   then allErrs @ [Invalid (Child path ''expirationSeconds'')
                                           (BVInt64 seconds)
                                           ''may not specify a duration less than 10 minutes'']
                                   else allErrs);
                        allErrs = (if seconds > 2 ^ 32
                                   then allErrs @ [Invalid (Child path ''expirationSeconds'')
                                           (BVInt64 seconds)
                                           ''may not specify a duration larger than 2^32 seconds'']
                                   else allErrs)
                    in validateTokenRequests_loop fldPath (Suc i) tokenRequests
                         (audiences, allErrs))))"

definition validateTokenRequests :: "TokenRequest list \<Rightarrow> Path \<Rightarrow> ErrorList" where
  "validateTokenRequests tokenRequests fldPath =
     snd (validateTokenRequests_loop fldPath 0 tokenRequests (Map.empty, []))"

fun validateVolumeLifecycleModes :: "string list \<Rightarrow> Path \<Rightarrow> ErrorList" where
  "validateVolumeLifecycleModes [] fldPath = []"
| "validateVolumeLifecycleModes (mode # modes) fldPath =
     (if mode = VolumeLifecyclePersistent \<or> mode = VolumeLifecycleEphemeral then []
      else [NotSupported fldPath (BVString mode)
              [VolumeLifecyclePersistent, VolumeLifecycleEphemeral]])
     @ validateVolumeLifecycleModes modes fldPath"

definition validateCSIDriverSpec :: "Ext \<Rightarrow> CSIDriverSpec \<Rightarrow> Path \<Rightarrow> ErrorList" where
  "validateCSIDriverSpec E spec fldPath =
     (let allErrs = [];
          allErrs = allErrs @ validateAttachRequired (AttachRequired spec) (Child fldPath ''attachedRequired'');
          allErrs = allErrs @ validatePodInfoOnMount (PodInfoOnMount spec) (Child fldPath ''podInfoOnMount'');
          allErrs = allErrs @ validateStorageCapacity E (StorageCapacity spec) (Child fldPath ''storageCapacity'');
          allErrs = allErrs @ validateFSGroupPolicy (FSGroupPolicy spec) (Child fldPath ''fsGroupPolicy'');
          allErrs = allErrs @ validateTokenRequests (TokenRequests spec) (Child fldPath ''tokenRequests'');
          allErrs = allErrs @ validateVolumeLifecycleModes (VolumeLifecycleModes spec)
                                (Child fldPath ''volumeLifecycleModes'')
      in allErrs)"

definition ValidateCSIDriver :: "Ext \<Rightarrow> CSIDriver \<Rightarrow> ErrorList" where
  "ValidateCSIDriver E csiDriver =
     (let allErrs = apivalidation_ValidateObjectMeta E (CSIDriver_ObjectMeta csiDriver) False
                      (ValidateCSIDriverName E) (NewPath ''metadata'' []);
          allErrs = allErrs @ validateCSIDriverSpec E (CSIDriver_Spec csiDriver) (NewPath ''spec'' [])
      in allErrs)"

definition ValidateCSIDriverUpdate :: "Ext \<Rightarrow> CSIDriver \<Rightarrow> CSIDriver \<Rightarrow> ErrorList" where
  "ValidateCSIDriverUpdate E new old =
     (let allErrs = apivalidation_ValidateObjectMetaUpdate E (CSIDriver_ObjectMeta new)
                      (CSIDriver_ObjectMeta old) (NewPath ''metadata'' []);
          allErrs = allErrs @ ValidateImmutableField BVBoolPtr
                                (AttachRequired (CSIDriver_Spec new)) (AttachRequired (CSIDriver_Spec old))
                                (NewPath ''spec'' [''attachedRequired'']);
          allErrs = allErrs @ ValidateImmutableField BVStringPtr
                                (FSGroupPolicy (CSIDriver_Spec new)) (FSGroupPolicy (CSIDriver_Spec old))
                                (NewPath ''spec'' [''fsGroupPolicy'']);
          allErrs = allErrs @ ValidateImmutableField BVBoolPtr
                                (PodInfoOnMount (CSIDriver_Spec new)) (PodInfoOnMount (CSIDriver_Spec old))
                                (NewPath ''spec'' [''podInfoOnMount'']);
          allErrs = allErrs @ ValidateImmutableField BVStringSlice
                                (VolumeLifecycleModes (CSIDriver_Spec new))
                                (VolumeLifecycleModes (CSIDriver_Spec old))
                                (NewPath ''spec'' [''volumeLifecycleModes'']);
          allErrs = allErrs @ ValidateImmutableField BVBoolPtr
                                (StorageCapacity (CSIDriver_Spec new)) (StorageCapacity (CSIDriver_Spec old))
                                (NewPath ''spec'' [''storageCapacity'']);
          allErrs = allErrs @ validateTokenRequests (TokenRequests (CSIDriver_Spec new))
                                (NewPath ''spec'' [''tokenRequests''])
      in allErrs)"

subsection \<open>CSIStorageCapacity\<close>

text \<open>\<open>var ValidateStorageCapacityName = apimachineryvalidation.NameIsDNSSubdomain\<close>\<close>

definition ValidateStorageCapacityName :: "Ext \<Rightarrow> string \<Rightarrow> bool \<Rightarrow> string list" where
  "ValidateStorageCapacityName E = apimachineryvalidation_NameIsDNSSubdomain E"

definition ValidateCSIStorageCapacity :: "Ext \<Rightarrow> CSIStorageCapacity \<Rightarrow> ErrorList" where
  "ValidateCSIStorageCapacity E capacity =
     (let allErrs = apivalidation_ValidateObjectMeta E (CSIStorageCapacity_ObjectMeta capacity) True
                      (ValidateStorageCapacityName E) (NewPath ''metadata'' []);
          allErrs = allErrs @ metav1validation_ValidateLabelSelector E (NodeTopology capacity)
                                (NewPath ''nodeTopology'' []);
          allErrs = allErrs @ map (\<lambda>msg. Invalid (NewPath ''storageClassName'' [])
                                           (BVString (StorageClassName capacity)) msg)
                                (apivalidation_ValidateClassName E (StorageClassName capacity) False);
          allErrs = (case Capacity capacity of
                       Some quantity \<Rightarrow>
                         allErrs @ apivalidation_ValidateNonnegativeQuantity E quantity
                                     (NewPath ''capacity'' [])
                     | None \<Rightarrow> allErrs)
      in allErrs)"

definition ValidateCSIStorageCapacityUpdate ::
  "Ext \<Rightarrow> CSIStorageCapacity \<Rightarrow> CSIStorageCapacity \<Rightarrow> ErrorList" where
  "ValidateCSIStorageCapacityUpdate E capacity oldCapacity =
     (let allErrs = apivalidation_ValidateObjectMetaUpdate E (CSIStorageCapacity_ObjectMeta capacity)
                      (CSIStorageCapacity_ObjectMeta oldCapacity) (NewPath ''metadata'' []);
          allErrs = (if \<not> Semantic_DeepEqual (NodeTopology capacity) (NodeTopology oldCapacity)
                     then allErrs @ [Invalid (NewPath ''nodeTopology'' [])
                                       (BVLabelSelectorPtr (NodeTopology capacity)) ''field is immutable'']
                     else allErrs);
          allErrs = (if StorageClassName capacity \<noteq> StorageClassName oldCapacity
                     then allErrs @ [Invalid (NewPath ''storageClassName'' [])
                                       (BVString (StorageClassName capacity)) ''field is immutable'']
                     else allErrs)
      in allErrs)"

subsection \<open>An environment for the worked examples\<close>

text \<open>
  Stand-ins for the external validators, used only where a property is evaluated on a
  concrete descriptor: names must not contain an underscore, object metadata needs a
  name, numbers and quantities must not be negative, a topology term's raw form maps
  each key to its set of values, and both feature gates are off.
\<close>

definition exampleNameFn :: "string \<Rightarrow> bool \<Rightarrow> string list" where
  "exampleNameFn name prefix =
     (if CHR ''_'' \<in> set name then [''must not contain an underscore''] else [])"

definition exampleRawTopology :: "TopologySelectorTerm \<Rightarrow> RawTopology" where
  "exampleRawTopology term =
     fold (\<lambda>req exprMap. exprMap(Key req \<mapsto> set (Values req))) (MatchLabelExpressions term) Map.empty"

definition exampleExt :: Ext where
  "exampleExt =
     \<lparr> apivalidation_ValidateObjectMeta =
         (\<lambda>meta requiresNamespace nameFn fldPath.
            if metaName meta = [] then [Required (Child fldPath ''name'') ''name is required'']
            else map (\<lambda>msg. Invalid (Child fldPath ''name'') (BVString (metaName meta)) msg)
                   (nameFn (metaName meta) False)),
       apivalidation_ValidateObjectMetaUpdate =
         (\<lambda>newMeta oldMeta fldPath.
            if metaName newMeta \<noteq> metaName oldMeta
            then [Invalid (Child fldPath ''name'') (BVString (metaName newMeta)) ''field is immutable'']
            else []),
       apivalidation_ValidateClassName = exampleNameFn,
       apivalidation_ValidateNodeName = exampleNameFn,
       apivalidation_ValidatePersistentVolumeName = exampleNameFn,
       apimachineryvalidation_NameIsDNSSubdomain = exampleNameFn,
       apivalidation_ValidateQualifiedName =
         (\<lambda>value fldPath. map (\<lambda>msg. Invalid fldPath (BVString value) msg) (exampleNameFn value False)),
       apivalidation_ValidateCSIDriverName =
         (\<lambda>driverName fldPath.
            if driverName = [] then [Required fldPath []]
            else map (\<lambda>msg. Invalid fldPath (BVString driverName) msg) (exampleNameFn driverName False)),
       apivalidation_ValidatePersistentVolumeSpec =
         (\<lambda>pvSpec pvName validateInlineSpec fldPath.
            map (\<lambda>msg. Invalid (Child fldPath ''storageClassName'')
                          (BVString (pvStorageClassName pvSpec)) msg)
              (exampleNameFn (pvStorageClassName pvSpec) False)),
       apivalidation_ValidateTopologySelectorTerm = (\<lambda>term fldPath. (exampleRawTopology term, [])),
       apivalidation_ValidateNonnegativeField =
         (\<lambda>value fldPath.
            if value < 0 then [Invalid fldPath (BVInt64 value) ''must be greater than or equal to 0'']
            else []),
       apivalidation_ValidateNonnegativeQuantity =
         (\<lambda>quantity fldPath.
            case quantity of Quantity n \<Rightarrow>
              if n < 0 then [Invalid fldPath (BVInt64 n) ''must be greater than or equal to 0'']
              else []),
       metav1validation_ValidateLabelSelector = (\<lambda>selector fldPath. []),
       strings_ToLower = (\<lambda>s. s),
       Enabled = (\<lambda>feature. False) \<rparr>"

subsection \<open>Notions used to state the properties\<close>

text \<open>An error of kind Duplicate addressed at a given path.\<close>

definition isDuplicateAt :: "Path \<Rightarrow> Error \<Rightarrow> bool" where
  "isDuplicateAt p e = (Type e = ErrorTypeDuplicate \<and> Field e = p)"

text \<open>
  What one token request at index \<open>i\<close> contributes, in the words of the claim:
  \<open>seen\<close> says whether its audience occurred earlier in the list. A repeated audience
  gives one Duplicate error and nothing else; otherwise a non-nil expiration is
  checked against both bounds.
\<close>

definition tokenRequestErrs_spec :: "Path \<Rightarrow> nat \<Rightarrow> bool \<Rightarrow> TokenRequest \<Rightarrow> ErrorList" where
  "tokenRequestErrs_spec fldPath i seen tokenRequest =
     (if seen
      then [Duplicate (Child (Index fldPath i) ''audience'') (BVString (Audience tokenRequest))]
      else (case ExpirationSeconds tokenRequest of
              None \<Rightarrow> []
            | Some seconds \<Rightarrow>
                (if seconds < 600
                 then [Invalid (Child (Index fldPath i) ''expirationSeconds'') (BVInt64 seconds)
                         ''may not specify a duration less than 10 minutes'']
                 else [])
                @ (if seconds > 2 ^ 32
                   then [Invalid (Child (Index fldPath i) ''expirationSeconds'') (BVInt64 seconds)
                           ''may not specify a duration larger than 2^32 seconds'']
                   else [])))"

section \<open>Properties\<close>

subsection \<open>Reclaim policy\<close>

text \<open>
  C10. For every StorageClass whose ReclaimPolicy points to the empty string,
  \<open>validateReclaimPolicy\<close> returns no error. The supported-value check is applied only
  to non-empty values: a value is rejected with NotSupported exactly when it is
  non-empty and neither Delete nor Retain, and no Required error is ever produced.
\<close>

theorem validateReclaimPolicy_empty_accepted:
  "validateReclaimPolicy (ReclaimPolicy (storageClass\<lparr>ReclaimPolicy := Some []\<rparr>)) fldPath = Inr []
   \<and> validateReclaimPolicy (Some policy) fldPath =
       Inr (if policy = [] \<or> policy = ''Delete'' \<or> policy = ''Retain'' then []
            else [NotSupported fldPath (BVStringPtr (Some policy)) [''Delete'', ''Retain'']])"
  by (simp add: validateReclaimPolicy_def supportedReclaimPolicy_def)

text \<open>
  C1. The claim says that every entry point returns a Result and that a nil
  ReclaimPolicy pointer is reported as an error. The code dereferences the pointer
  unchecked: on a StorageClass whose ReclaimPolicy is nil, \<open>ValidateStorageClass\<close> panics,
  and so does \<open>ValidateStorageClassUpdate\<close> when the new or the old ReclaimPolicy is nil,
  whatever the external validators do.
\<close>

theorem ValidateStorageClass_nil_ReclaimPolicy_panics:
  "ValidateStorageClass E (storageClass\<lparr>ReclaimPolicy := None\<rparr>) = Inl NilPointerDereference
   \<and> ValidateStorageClassUpdate E (storageClass\<lparr>ReclaimPolicy := None\<rparr>) oldStorageClass
       = Inl NilPointerDereference
   \<and> ValidateStorageClassUpdate E storageClass (oldStorageClass\<lparr>ReclaimPolicy := None\<rparr>)
       = Inl NilPointerDereference"
  by (simp add: ValidateStorageClass_def ValidateStorageClassUpdate_def validateReclaimPolicy_def
        Let_def split: option.splits)

subsection \<open>Size ceilings\<close>

text \<open>
  C5. The claim says that the TooLong error of \<open>validateVolumeError\<close> carries the
  message ceiling 1024. In the code, a message longer than 1024 bytes yields one TooLong
  error at the message path whose limit is \<open>maxAttachedVolumeMetadataSize\<close>, 262144.
\<close>

theorem validateVolumeError_TooLong_limit:
  "length (Message e) > 1024 \<Longrightarrow>
   validateVolumeError (Some e) fldPath =
     [TooLong (Child fldPath ''message'') (BVString (Message e)) 262144]"
  by (simp add: validateVolumeError_def maxVolumeErrorMessageSize_def
        maxAttachedVolumeMetadataSize_def)

theorem validateVolumeError_TooLong_limit_witness:
  "validateVolumeError (Some \<lparr>Message = replicate 1025 (CHR ''x'')\<rparr>)
     (Child (NewPath ''status'' []) ''attachError'') =
     [TooLong (Child (Child (NewPath ''status'' []) ''attachError'') ''message'')
        (BVString (replicate 1025 (CHR ''x''))) 262144]"
  using validateVolumeError_TooLong_limit
          [of "\<lparr>Message = replicate 1025 (CHR ''x'')\<rparr>" "Child (NewPath ''status'' []) ''attachError''"]
  by simp

text \<open>The range loop of \<open>validateParameters\<close> in closed form.\<close>

lemma validateParameters_loop_eq:
  "validateParameters_loop es p (errs, t) =
     (errs @ map (\<lambda>(k, v). Invalid p (BVString k) ''field can not be empty.'')
               (filter (\<lambda>(k, v). length k < 1) es),
      t + of_nat (sum_list (map (\<lambda>(k, v). length k + length v) es)))"
  by (induction es arbitrary: errs t) (auto simp: algebra_simps)

text \<open>A byte count below \<open>2 ^ 63\<close> is read back unchanged from an \<open>int64\<close>.\<close>

lemma sint_of_nat_int64:
  "n < 2 ^ 63 \<Longrightarrow> sint (of_nat n :: 64 word) = int n"
  apply transfer
  apply (simp add: signed_take_bit_int_eq_self)
  done

text \<open>
  C4. A parameters map with more than 512 entries yields exactly one TooLong error,
  carrying the count ceiling 512, whatever the sizes of its keys and values: the byte
  sum plays no part. A map within the count ceiling whose keys and values sum to more
  than 256 kB (the sum fitting an \<open>int64\<close>, as the sizes of strings held in memory
  do) yields a TooLong error carrying the byte ceiling 262144, after the Invalid
  errors of its empty keys.
\<close>

theorem validateParameters_two_stage:
  "(length (entries params) > 512 \<longrightarrow>
      validateParameters params fldPath =
        [TooLong fldPath (BVString ''Provisioner Parameters exceeded max allowed'') 512])
   \<and> (length (entries params) \<le> 512
        \<and> 262144 < sum_list (map (\<lambda>(k, v). length k + length v) (entries params))
        \<and> sum_list (map (\<lambda>(k, v). length k + length v) (entries params)) < 2 ^ 63 \<longrightarrow>
      validateParameters params fldPath =
        map (\<lambda>(k, v). Invalid fldPath (BVString k) ''field can not be empty.'')
          (filter (\<lambda>(k, v). length k < 1) (entries params))
        @ [TooLong fldPath (BVString []) 262144])"
  by (simp add: validateParameters_def validateParameters_loop_eq sint_of_nat_int64
        maxProvisionerParameterLen_def maxProvisionerParameterSize_def)

theorem validateParameters_two_stage_witness:
  "validateParameters (Some (map (\<lambda>i. (replicate (Suc i) (CHR ''k''), ''v'')) [0..<513]))
       (NewPath ''parameters'' []) =
     [TooLong (NewPath ''parameters'' [])
        (BVString ''Provisioner Parameters exceeded max allowed'') 512]
   \<and> validateParameters (Some [(''key'', replicate 262142 (CHR ''v''))])
       (NewPath ''parameters'' []) =
     [TooLong (NewPath ''parameters'' []) (BVString []) 262144]"
  using validateParameters_two_stage
          [of "Some (map (\<lambda>i. (replicate (Suc i) (CHR ''k''), ''v'')) [0..<513])"
              "NewPath ''parameters'' []"]
        validateParameters_two_stage
          [of "Some [(''key'', replicate 262142 (CHR ''v''))]" "NewPath ''parameters'' []"]
  by (simp add: entries_def)

end
